theory Spec2Isabelle
  imports Complex_Main "HOL-Library.Char_ord" "HOL-Library.List_Lexorder"
begin

section \<open>The database the tools talk to\<close>

text \<open>
  The tools of \<^verbatim>\<open>main.py\<close> own no data: each one opens a connection, sends SQL to a
  PostgreSQL server and shapes the rows that come back. The server is therefore part of
  the model. It holds tables in several schemas; a table has declared columns (in
  ordinal order), rows, and a size string as \<^verbatim>\<open>pg_size_pretty\<close> prints it.

  Table and column arguments are modelled as names: an interpolated name denotes the
  table or column of exactly that name. Quoting, case folding and SQL fragments passed
  in place of a name are outside the model.
\<close>

datatype val = Null | Num rat | Text string

record column =
  col_name :: string
  data_type :: string

record table =
  tbl_schema :: string
  tbl_name :: string
  tbl_columns :: "column list"
  tbl_rows :: "val list list"
  tbl_size :: string

record server =
  accepting :: bool
  tables :: "table list"


subsection \<open>Errors\<close>

datatype engine_error =
    UndefinedTable string
  | UndefinedColumn string
  | UndefinedFunction string
  | InvalidRowCount
  | SyntaxError

datatype error =
    OperationalError
  | DatabaseError engine_error
  | NoResultsToFetch
  | TypeError

definition bind_err :: "error + 'a \<Rightarrow> ('a \<Rightarrow> error + 'b) \<Rightarrow> error + 'b" where
  "bind_err m f = (case m of Inl e \<Rightarrow> Inl e | Inr x \<Rightarrow> f x)"

subsection \<open>The catalog view \<^verbatim>\<open>information_schema.columns\<close>\<close>

record col_row =
  cr_schema :: string
  cr_table :: string
  cr_column :: string
  cr_ordinal :: nat
  cr_type :: string

definition table_col_rows :: "table \<Rightarrow> col_row list" where
  "table_col_rows T =
     map (\<lambda>(i, c). \<lparr>cr_schema = tbl_schema T, cr_table = tbl_name T, cr_column = col_name c,
                     cr_ordinal = i, cr_type = data_type c\<rparr>)
         (enumerate 1 (tbl_columns T))"

definition information_schema_columns :: "table list \<Rightarrow> col_row list" where
  "information_schema_columns db = concat (map table_col_rows db)"

definition fetchone :: "'a list \<Rightarrow> 'a option" where
  "fetchone rows = (case rows of [] \<Rightarrow> None | r # _ \<Rightarrow> Some r)"

subsection \<open>Name resolution and column access\<close>

text \<open>\<^verbatim>\<open>FROM {table}\<close>: an unqualified name is looked up in schema \<^verbatim>\<open>public\<close>.\<close>

definition find_table :: "table list \<Rightarrow> string \<Rightarrow> table option" where
  "find_table db t = find (\<lambda>T. tbl_schema T = ''public'' \<and> tbl_name T = t) db"

definition resolve_table :: "table list \<Rightarrow> string \<Rightarrow> error + table" where
  "resolve_table db t =
     (case find_table db t of
        None \<Rightarrow> Inl (DatabaseError (UndefinedTable t))
      | Some T \<Rightarrow> Inr T)"

fun col_pos :: "column list \<Rightarrow> string \<Rightarrow> nat option" where
  "col_pos [] c = None"
| "col_pos (x # xs) c = (if col_name x = c then Some 0 else map_option Suc (col_pos xs c))"

definition cell :: "val list \<Rightarrow> nat \<Rightarrow> val" where
  "cell r i = (if i < length r then r ! i else Null)"

definition resolve_column :: "table \<Rightarrow> string \<Rightarrow> error + nat" where
  "resolve_column T c =
     (case col_pos (tbl_columns T) c of
        None \<Rightarrow> Inl (DatabaseError (UndefinedColumn c))
      | Some i \<Rightarrow> Inr i)"

fun resolve_columns :: "table \<Rightarrow> string list \<Rightarrow> error + nat list" where
  "resolve_columns T [] = Inr []"
| "resolve_columns T (c # cs) =
     bind_err (resolve_column T c) (\<lambda>i.
     bind_err (resolve_columns T cs) (\<lambda>is. Inr (i # is)))"

definition column_values :: "table list \<Rightarrow> string \<Rightarrow> string \<Rightarrow> error + val list" where
  "column_values db t c =
     bind_err (resolve_table db t) (\<lambda>T.
     bind_err (resolve_column T c) (\<lambda>i.
     Inr (map (\<lambda>r. cell r i) (tbl_rows T))))"

subsection \<open>The statements the tools send\<close>

text \<open>\<^verbatim>\<open>SELECT COUNT(*) FROM {table}\<close>\<close>

definition sql_count_rows :: "table list \<Rightarrow> string \<Rightarrow> error + int" where
  "sql_count_rows db t =
     bind_err (resolve_table db t) (\<lambda>T. Inr (int (length (tbl_rows T))))"


text \<open>\<^verbatim>\<open>SELECT COUNT(DISTINCT {column}) FROM {table}\<close>: an aggregate over a column skips nulls.\<close>

definition sql_count_distinct_column :: "table list \<Rightarrow> string \<Rightarrow> string \<Rightarrow> error + int" where
  "sql_count_distinct_column db t c =
     bind_err (column_values db t c) (\<lambda>vs.
     Inr (int (length (remdups (filter (\<lambda>v. v \<noteq> Null) vs)))))"

text \<open>
  \<^verbatim>\<open>SELECT COUNT(DISTINCT (c1, ..., cn)) FROM {table}\<close>: a row value is never the null
  value, and two row values with nulls in the same places are not distinct.
\<close>

definition sql_count_distinct_tuple :: "table list \<Rightarrow> string \<Rightarrow> string list \<Rightarrow> error + int" where
  "sql_count_distinct_tuple db t cs =
     bind_err (resolve_table db t) (\<lambda>T.
     bind_err (resolve_columns T cs) (\<lambda>is.
     Inr (int (length (remdups (map (\<lambda>r. map (cell r) is) (tbl_rows T)))))))"

text \<open>\<^verbatim>\<open>SELECT COUNT(*) FROM (SELECT DISTINCT * FROM {table}) AS distinct_rows\<close>\<close>

definition sql_count_distinct_star :: "table list \<Rightarrow> string \<Rightarrow> error + int" where
  "sql_count_distinct_star db t =
     bind_err (resolve_table db t) (\<lambda>T. Inr (int (length (remdups (tbl_rows T)))))"

text \<open>
  \<^verbatim>\<open>SELECT MIN({column}), MAX({column}), AVG({column}) FROM {table}\<close>: the engine has
  \<^verbatim>\<open>AVG\<close> for its numeric types only; all three aggregates skip nulls and are null over
  no values.
\<close>

definition engine_numeric_types :: "string list" where
  "engine_numeric_types =
     [''smallint'', ''integer'', ''bigint'', ''numeric'', ''real'', ''double precision'']"

definition numbers :: "val list \<Rightarrow> rat list" where
  "numbers vs = concat (map (\<lambda>v. case v of Num x \<Rightarrow> [x] | _ \<Rightarrow> []) vs)"

definition agg_min :: "rat list \<Rightarrow> val" where
  "agg_min xs = (case xs of [] \<Rightarrow> Null | x # ys \<Rightarrow> Num (fold min ys x))"

definition agg_max :: "rat list \<Rightarrow> val" where
  "agg_max xs = (case xs of [] \<Rightarrow> Null | x # ys \<Rightarrow> Num (fold max ys x))"

definition agg_avg :: "rat list \<Rightarrow> rat option" where
  "agg_avg xs = (if xs = [] then None else Some (sum_list xs / of_nat (length xs)))"

definition sql_min_max_avg ::
  "table list \<Rightarrow> string \<Rightarrow> string \<Rightarrow> error + (val \<times> val \<times> rat option)" where
  "sql_min_max_avg db t c =
     bind_err (resolve_table db t) (\<lambda>T.
     bind_err (resolve_column T c) (\<lambda>i.
     if data_type (tbl_columns T ! i) \<notin> set engine_numeric_types
     then Inl (DatabaseError (UndefinedFunction ''avg''))
     else let xs = numbers (map (\<lambda>r. cell r i) (tbl_rows T))
          in Inr (agg_min xs, agg_max xs, agg_avg xs)))"






section \<open>The connection scope\<close>

text \<open>
  Every tool body runs inside \<^verbatim>\<open>with psycopg2.connect(**DB_CONFIG) as conn\<close>. Connecting
  may fail; otherwise the block's transaction is committed when the body returns and
  rolled back when it raises. The block of a psycopg2 connection ends the transaction
  only: nothing in \<^verbatim>\<open>main.py\<close> calls \<^verbatim>\<open>conn.close()\<close>, so no \<open>Close\<close> event is ever
  produced by the code.
\<close>

datatype conn_event = Connect | Commit | Rollback | Close

record 'a outcome =
  result :: "error + 'a"
  server_after :: server
  events :: "conn_event list"

definition with_connection ::
  "server \<Rightarrow> (table list \<Rightarrow> error + ('a \<times> table list)) \<Rightarrow> 'a outcome" where
  "with_connection s body =
     (if \<not> accepting s
      then \<lparr>result = Inl OperationalError, server_after = s, events = []\<rparr>
      else case body (tables s) of
             Inl e \<Rightarrow> \<lparr>result = Inl e, server_after = s, events = [Connect, Rollback]\<rparr>
           | Inr (x, db') \<Rightarrow>
               \<lparr>result = Inr x, server_after = s\<lparr>tables := db'\<rparr>, events = [Connect, Commit]\<rparr>)"

text \<open>A body made of \<^verbatim>\<open>SELECT\<close> statements leaves the tables as they are.\<close>

definition selecting :: "(table list \<Rightarrow> error + 'a) \<Rightarrow> table list \<Rightarrow> error + ('a \<times> table list)" where
  "selecting f db = bind_err (f db) (\<lambda>x. Inr (x, db))"

section \<open>Python arithmetic\<close>

text \<open>
  \<^verbatim>\<open>round(x, 2)\<close>: to the nearest multiple of 1/100, ties to the even one. Python
  floats are taken as exact rationals here; binary rounding is not modelled.
\<close>

definition round2 :: "rat \<Rightarrow> rat" where
  "round2 x =
     (let y = x * 100; f = \<lfloor>y\<rfloor>; d = y - of_int f
      in of_int (if d < 1 / 2 then f else if 1 / 2 < d then f + 1
                 else if even f then f else f + 1) / 100)"

text \<open>\<^verbatim>\<open>(count / total_rows * 100) if total_rows > 0 else 0\<close>\<close>

definition percentage :: "int \<Rightarrow> int \<Rightarrow> rat" where
  "percentage k total_rows =
     (if total_rows > 0 then of_int k / of_int total_rows * 100 else 0)"

section \<open>The tools\<close>

subsection \<open>A statement interpreter for \<^verbatim>\<open>execute_sql\<close>\<close>








subsection \<open>execute_sql, list_tables, get_schema\<close>



record schema_entry =
  se_column :: string
  se_type :: string

definition get_schema :: "server \<Rightarrow> string \<Rightarrow> schema_entry list outcome" where
  "get_schema s t =
     with_connection s (selecting (\<lambda>db.
       Inr (map (\<lambda>r. \<lparr>se_column = cr_column r, se_type = cr_type r\<rparr>)
              (filter (\<lambda>r. cr_table r = t) (information_schema_columns db)))))"

subsection \<open>get_table_stats\<close>



subsection \<open>check_null_values\<close>




subsection \<open>get_column_stats\<close>

text \<open>
  The keys \<^verbatim>\<open>min\<close>, \<^verbatim>\<open>max\<close>, \<^verbatim>\<open>avg\<close> are present for a numeric type only:
  \<open>cs_numeric\<close> is \<open>None\<close> when they are absent. The type lookup has no schema filter,
  and \<^verbatim>\<open>cur.fetchone()[0]\<close> raises \<^verbatim>\<open>TypeError\<close> when the lookup finds no row.
  \<^verbatim>\<open>if avg_val\<close> is Python truth: false for \<^verbatim>\<open>None\<close> and for a zero.
\<close>

record column_stats =
  cs_column :: string
  cs_data_type :: string
  cs_distinct_count :: int
  cs_numeric :: "(val \<times> val \<times> rat option) option"

definition numeric_types :: "string list" where
  "numeric_types =
     [''integer'', ''bigint'', ''smallint'', ''numeric'', ''real'', ''double precision'',
      ''decimal'']"

definition truthy :: "rat option \<Rightarrow> bool" where
  "truthy a = (case a of None \<Rightarrow> False | Some x \<Rightarrow> x \<noteq> 0)"

definition get_column_stats :: "server \<Rightarrow> string \<Rightarrow> string \<Rightarrow> column_stats outcome" where
  "get_column_stats s t c =
     with_connection s (selecting (\<lambda>db.
       case fetchone (map cr_type (filter (\<lambda>r. cr_table r = t \<and> cr_column r = c)
                                     (information_schema_columns db))) of
         None \<Rightarrow> Inl TypeError
       | Some dt \<Rightarrow>
           bind_err (sql_count_distinct_column db t c) (\<lambda>distinct_count.
           if dt \<in> set numeric_types
           then bind_err (sql_min_max_avg db t c) (\<lambda>(min_val, max_val, avg_val).
                  Inr \<lparr>cs_column = c, cs_data_type = dt, cs_distinct_count = distinct_count,
                       cs_numeric = Some (min_val, max_val,
                         if truthy avg_val then map_option round2 avg_val else None)\<rparr>)
           else Inr \<lparr>cs_column = c, cs_data_type = dt, cs_distinct_count = distinct_count,
                     cs_numeric = None\<rparr>)))"

subsection \<open>preview_data\<close>


subsection \<open>check_duplicate_rows\<close>

record duplicate_report =
  dr_table :: string
  dr_columns :: "string list option"
  total_rows :: int
  distinct_rows :: int
  duplicate_rows :: int
  duplicate_percentage :: rat

definition check_duplicate_rows ::
  "server \<Rightarrow> string \<Rightarrow> string list option \<Rightarrow> duplicate_report outcome" where
  "check_duplicate_rows s t columns_arg =
     (let columns = (case columns_arg of None \<Rightarrow> [] | Some cs \<Rightarrow> cs)
      in with_connection s (selecting (\<lambda>db.
           bind_err (sql_count_rows db t) (\<lambda>total.
           bind_err (if columns \<noteq> []
                     then (if length columns > 1
                           then sql_count_distinct_tuple db t columns
                           else sql_count_distinct_column db t (hd columns))
                     else sql_count_distinct_star db t) (\<lambda>dist.
           let dup = total - dist
           in Inr \<lparr>dr_table = t,
                   dr_columns = (if columns \<noteq> [] then Some columns else None),
                   total_rows = total, distinct_rows = dist, duplicate_rows = dup,
                   duplicate_percentage = round2 (percentage dup total)\<rparr>)))))"

subsection \<open>column_value_counts\<close>


subsection \<open>check_empty_strings\<close>




subsection \<open>The catalogue\<close>






section \<open>A sample server\<close>

text \<open>
  Table \<^verbatim>\<open>users\<close> of schema \<^verbatim>\<open>public\<close> holds the rows (1, 'a'), (2, ''), (3, NULL);
  schema \<^verbatim>\<open>audit\<close> has a table of the same name; \<^verbatim>\<open>scores\<close> holds the one value 0
  and \<^verbatim>\<open>tags\<close> the one value NULL.
\<close>

definition users :: table where
  "users = \<lparr>tbl_schema = ''public'', tbl_name = ''users'',
            tbl_columns = [\<lparr>col_name = ''id'', data_type = ''integer''\<rparr>,
                           \<lparr>col_name = ''name'', data_type = ''text''\<rparr>],
            tbl_rows = [[Num 1, Text ''a''], [Num 2, Text []], [Num 3, Null]],
            tbl_size = ''16 kB''\<rparr>"

definition audit_users :: table where
  "audit_users = \<lparr>tbl_schema = ''audit'', tbl_name = ''users'',
                  tbl_columns = [\<lparr>col_name = ''id'', data_type = ''integer''\<rparr>,
                                 \<lparr>col_name = ''seen'', data_type = ''text''\<rparr>,
                                 \<lparr>col_name = ''actor'', data_type = ''text''\<rparr>],
                  tbl_rows = [],
                  tbl_size = ''8192 bytes''\<rparr>"

definition scores :: table where
  "scores = \<lparr>tbl_schema = ''public'', tbl_name = ''scores'',
             tbl_columns = [\<lparr>col_name = ''v'', data_type = ''integer''\<rparr>],
             tbl_rows = [[Num 0]],
             tbl_size = ''8192 bytes''\<rparr>"

definition tags :: table where
  "tags = \<lparr>tbl_schema = ''public'', tbl_name = ''tags'',
           tbl_columns = [\<lparr>col_name = ''tag'', data_type = ''text''\<rparr>],
           tbl_rows = [[Null]],
           tbl_size = ''8192 bytes''\<rparr>"

definition sample :: server where
  "sample = \<lparr>accepting = True, tables = [users, audit_users, scores, tags]\<rparr>"

section \<open>Basic facts\<close>

lemma bind_err_simps:
  "bind_err (Inl e) f = Inl e"
  "bind_err (Inr x) f = f x"
  by (simp_all add: bind_err_def)

lemma result_with_connection:
  "accepting s \<Longrightarrow> result (with_connection s (selecting f)) = f (tables s)"
  by (cases "f (tables s)") (simp_all add: with_connection_def selecting_def bind_err_def)



lemma result_refused:
  "\<not> accepting s \<Longrightarrow> result (with_connection s body) = Inl OperationalError"
  by (simp add: with_connection_def)




lemmas sample_defs = sample_def users_def audit_users_def scores_def tags_def

lemma accepting_sample: "accepting sample"
  by (simp add: sample_def)

lemma find_table_sample_users: "find_table (tables sample) ''users'' = Some users"
  by (simp add: find_table_def sample_def users_def)

section \<open>A table that is in no schema\<close>



section \<open>Duplicate rows with an empty column list\<close>

lemma duplicates_sample_users:
  "result (check_duplicate_rows sample ''users'' (Some [])) =
     Inr \<lparr>dr_table = ''users'', dr_columns = None, total_rows = 3, distinct_rows = 3,
          duplicate_rows = 0, duplicate_percentage = 0\<rparr>"
proof -
  have r: "tbl_rows users = [[Num 1, Text ''a''], [Num 2, Text []], [Num 3, Null]]"
    by (simp add: users_def)
  show ?thesis
    by (simp add: check_duplicate_rows_def result_with_connection [OF accepting_sample]
        sql_count_rows_def sql_count_distinct_star_def resolve_table_def
        find_table_sample_users bind_err_simps r percentage_def round2_def)
qed

text \<open>
  Claim C10. \<^verbatim>\<open>check_duplicate_rows\<close> with the empty column list does what it does with
  no column argument; whenever it returns, the \<^verbatim>\<open>columns\<close> field is null (not the empty
  list) and \<^verbatim>\<open>distinct_rows\<close> is the number of distinct full rows of the table.
\<close>

theorem empty_columns_same_as_absent:
  "check_duplicate_rows s t (Some []) = check_duplicate_rows s t None \<and>
   (\<forall>r. result (check_duplicate_rows s t (Some [])) = Inr r \<longrightarrow>
      dr_columns r = None \<and>
      (\<exists>T. find_table (tables s) t = Some T \<and>
           distinct_rows r = int (card (set (tbl_rows T)))))"
proof -
  have "check_duplicate_rows s t (Some []) = check_duplicate_rows s t None"
    by (simp add: check_duplicate_rows_def)
  moreover have "dr_columns r = None \<and>
      (\<exists>T. find_table (tables s) t = Some T \<and> distinct_rows r = int (card (set (tbl_rows T))))"
    if "result (check_duplicate_rows s t (Some [])) = Inr r" for r
  proof (cases "accepting s")
    case False
    with that show ?thesis
      by (simp add: check_duplicate_rows_def result_refused)
  next
    case True
    with that show ?thesis
      by (auto simp: check_duplicate_rows_def result_with_connection sql_count_rows_def
          sql_count_distinct_star_def resolve_table_def bind_err_def length_remdups_card_conv
          Let_def split: option.splits sum.splits)
  qed
  ultimately show ?thesis by blast
qed

theorem empty_columns_same_as_absent_witness:
  "check_duplicate_rows sample ''users'' (Some []) = check_duplicate_rows sample ''users'' None \<and>
   result (check_duplicate_rows sample ''users'' (Some [])) =
     Inr \<lparr>dr_table = ''users'', dr_columns = None, total_rows = 3, distinct_rows = 3,
          duplicate_rows = 0, duplicate_percentage = 0\<rparr> \<and>
   find_table (tables sample) ''users'' = Some users \<and>
   int (card (set (tbl_rows users))) = 3"
proof -
  note e = duplicates_sample_users
  from empty_columns_same_as_absent [of sample "''users''"] e
  have "check_duplicate_rows sample ''users'' (Some []) = check_duplicate_rows sample ''users'' None"
    and "\<exists>T. find_table (tables sample) ''users'' = Some T \<and> 3 = int (card (set (tbl_rows T)))"
    by auto
  then show ?thesis
    using e find_table_sample_users by auto
qed

section \<open>Effects of a call on the database and on the connection\<close>









lemma find_table_sample_tags: "find_table (tables sample) ''tags'' = Some tags"
  by (simp add: find_table_def sample_defs)



















section \<open>Where the code departs from its description\<close>

lemma columns_sample:
  "information_schema_columns (tables sample) =
     [\<lparr>cr_schema = ''public'', cr_table = ''users'', cr_column = ''id'', cr_ordinal = 1,
        cr_type = ''integer''\<rparr>,
      \<lparr>cr_schema = ''public'', cr_table = ''users'', cr_column = ''name'', cr_ordinal = 2,
        cr_type = ''text''\<rparr>,
      \<lparr>cr_schema = ''audit'', cr_table = ''users'', cr_column = ''id'', cr_ordinal = 1,
        cr_type = ''integer''\<rparr>,
      \<lparr>cr_schema = ''audit'', cr_table = ''users'', cr_column = ''seen'', cr_ordinal = 2,
        cr_type = ''text''\<rparr>,
      \<lparr>cr_schema = ''audit'', cr_table = ''users'', cr_column = ''actor'', cr_ordinal = 3,
        cr_type = ''text''\<rparr>,
      \<lparr>cr_schema = ''public'', cr_table = ''scores'', cr_column = ''v'', cr_ordinal = 1,
        cr_type = ''integer''\<rparr>,
      \<lparr>cr_schema = ''public'', cr_table = ''tags'', cr_column = ''tag'', cr_ordinal = 1,
        cr_type = ''text''\<rparr>]"
  by (simp add: information_schema_columns_def table_col_rows_def sample_defs)

text \<open>
  Claim C6 fails on the code: the catalog query of \<^verbatim>\<open>get_schema\<close> has no
  \<^verbatim>\<open>table_schema = 'public'\<close> condition (the queries of \<^verbatim>\<open>get_table_stats\<close>,
  \<^verbatim>\<open>check_null_values\<close> and \<^verbatim>\<open>check_empty_strings\<close> have it). Table \<^verbatim>\<open>users\<close> of schema
  \<^verbatim>\<open>public\<close> has 2 columns, schema \<^verbatim>\<open>audit\<close> has a table of the same name with 3, and
  \<^verbatim>\<open>get_schema\<close> returns 5 entries.
\<close>

theorem get_schema_mixes_schemas:
  "find_table (tables sample) ''users'' = Some users \<and>
   length (tbl_columns users) = 2 \<and>
   result (get_schema sample ''users'') =
     Inr [\<lparr>se_column = ''id'', se_type = ''integer''\<rparr>,
          \<lparr>se_column = ''name'', se_type = ''text''\<rparr>,
          \<lparr>se_column = ''id'', se_type = ''integer''\<rparr>,
          \<lparr>se_column = ''seen'', se_type = ''text''\<rparr>,
          \<lparr>se_column = ''actor'', se_type = ''text''\<rparr>]"
  by (simp add: find_table_sample_users get_schema_def
      result_with_connection [OF accepting_sample] columns_sample)
     (simp add: users_def)

lemma find_table_sample_scores: "find_table (tables sample) ''scores'' = Some scores"
  by (simp add: find_table_def sample_defs)

text \<open>
  Claim C2 fails on the code: \<^verbatim>\<open>if avg_val\<close> is false for an average of zero. Column
  \<^verbatim>\<open>v\<close> of \<^verbatim>\<open>scores\<close> is an integer column with the one stored value 0, not null, and
  \<^verbatim>\<open>get_column_stats\<close> reports \<^verbatim>\<open>avg\<close> as null.
\<close>

theorem zero_average_reported_null:
  "tbl_rows scores = [[Num 0]] \<and>
   result (get_column_stats sample ''scores'' ''v'') =
     Inr \<lparr>cs_column = ''v'', cs_data_type = ''integer'', cs_distinct_count = 1,
          cs_numeric = Some (Num 0, Num 0, None)\<rparr>"
proof -
  have s: "tbl_rows scores = [[Num 0]]"
    "tbl_columns scores = [\<lparr>col_name = ''v'', data_type = ''integer''\<rparr>]"
    by (simp_all add: scores_def)
  show ?thesis
    by (simp add: s get_column_stats_def result_with_connection [OF accepting_sample]
        columns_sample fetchone_def sql_count_distinct_column_def column_values_def
        resolve_table_def find_table_sample_scores resolve_column_def bind_err_simps
        numeric_types_def sql_min_max_avg_def engine_numeric_types_def cell_def numbers_def
        agg_min_def agg_max_def agg_avg_def truthy_def)
qed

text \<open>
  Claim C4 fails on the code: with exactly one column given, the tool counts
  \<^verbatim>\<open>COUNT(DISTINCT column)\<close>, which skips nulls, so a null is not counted as a
  combination of its own. Table \<^verbatim>\<open>tags\<close> has one row, whose \<^verbatim>\<open>tag\<close> is null: over
  column \<^verbatim>\<open>tag\<close> the tool reports 0 distinct rows and 1 duplicate row, while with no
  columns it reports 1 distinct row and no duplicate.
\<close>

theorem null_row_counted_duplicate:
  "tbl_rows tags = [[Null]] \<and>
   result (check_duplicate_rows sample ''tags'' (Some [''tag''])) =
     Inr \<lparr>dr_table = ''tags'', dr_columns = Some [''tag''], total_rows = 1, distinct_rows = 0,
          duplicate_rows = 1, duplicate_percentage = 100\<rparr> \<and>
   result (check_duplicate_rows sample ''tags'' None) =
     Inr \<lparr>dr_table = ''tags'', dr_columns = None, total_rows = 1, distinct_rows = 1,
          duplicate_rows = 0, duplicate_percentage = 0\<rparr>"
proof -
  have s: "tbl_rows tags = [[Null]]"
    "tbl_columns tags = [\<lparr>col_name = ''tag'', data_type = ''text''\<rparr>]"
    by (simp_all add: tags_def)
  show ?thesis
    by (simp add: s check_duplicate_rows_def result_with_connection [OF accepting_sample]
        sql_count_rows_def sql_count_distinct_column_def sql_count_distinct_star_def
        column_values_def resolve_table_def find_table_sample_tags resolve_column_def
        bind_err_simps cell_def percentage_def round2_def)
qed

section \<open>Null counts per column\<close>



















section \<open>Names that do not exist\<close>
















end
